theory Spec2Isabelle
  imports Main
begin

section \<open>Python values\<close>

text \<open>
  The values that travel through \<^verbatim>\<open>pyokta_aws/settings.py\<close>: argparse stores \<^verbatim>\<open>None\<close>,
  a \<^verbatim>\<open>bool\<close> (the two \<^verbatim>\<open>store_true\<close> switches), an \<^verbatim>\<open>int\<close> (the default
  \<^verbatim>\<open>3600\<close>) or a \<^verbatim>\<open>str\<close> (every value read from the command line or from the
  environment) in the namespace. A \<^typ>\<open>string\<close> is a list of characters, one \<^typ>\<open>char\<close>
  for each character of the Python \<^verbatim>\<open>str\<close>.
\<close>

datatype pyval = PNone | PBool bool | PInt int | PStr string

text \<open>The exceptions of this module. A \<^verbatim>\<open>TypeError\<close> carries what it complains about.\<close>

datatype type_error =
    Positional_given nat nat
  | Multiple_values string
  | Too_many_positional
  | Missing_argument string

datatype error = TypeError type_error | KeyError string | AttributeError string

text \<open>Truth value testing, as \<^verbatim>\<open>not y\<close> and \<^verbatim>\<open>if y:\<close> do it.\<close>

fun truthy :: "pyval \<Rightarrow> bool" where
  "truthy PNone = False"
| "truthy (PBool b) = b"
| "truthy (PInt i) = (i \<noteq> 0)"
| "truthy (PStr s) = (s \<noteq> [])"

text \<open>\<^verbatim>\<open>str(y)\<close>: decimal digits for an \<^verbatim>\<open>int\<close>, the words Python prints for the rest.\<close>

fun str_nat :: "nat \<Rightarrow> string" where
  "str_nat n = (if n < 10 then [''0123456789'' ! n]
                else str_nat (n div 10) @ [''0123456789'' ! (n mod 10)])"

declare str_nat.simps [simp del]

definition str_int :: "int \<Rightarrow> string" where
  "str_int i = (if i < 0 then CHR ''-'' # str_nat (nat (- i)) else str_nat (nat i))"

fun str_py :: "pyval \<Rightarrow> string" where
  "str_py PNone = ''None''"
| "str_py (PBool b) = (if b then ''True'' else ''False'')"
| "str_py (PInt i) = str_int i"
| "str_py (PStr s) = s"

section \<open>Dictionaries\<close>

text \<open>
  A \<^verbatim>\<open>dict\<close> keeps its items in insertion order, and \<^verbatim>\<open>items()\<close> walks them in that
  order: an association list. The keys of a namespace's dictionary are attribute names,
  which Python interns.
\<close>

type_synonym pydict = "(string \<times> pyval) list"

definition keys :: "pydict \<Rightarrow> string list" where
  "keys d = map fst d"

text \<open>\<^verbatim>\<open>d[k]\<close>, which raises \<^verbatim>\<open>KeyError\<close> on a missing key.\<close>

definition dict_getitem :: "pydict \<Rightarrow> string \<Rightarrow> error + pyval" where
  "dict_getitem d k = (case map_of d k of None \<Rightarrow> Inl (KeyError k) | Some v \<Rightarrow> Inr v)"

text \<open>\<^verbatim>\<open>d[k] = v\<close>: an existing key keeps its place, a new one goes to the end.\<close>

fun dict_setitem :: "pydict \<Rightarrow> string \<Rightarrow> pyval \<Rightarrow> pydict" where
  "dict_setitem [] k v = [(k, v)]"
| "dict_setitem ((k', v') # d) k v =
     (if k' = k then (k, v) # d else (k', v') # dict_setitem d k v)"

text \<open>\<^verbatim>\<open>d.pop(k)\<close>: the value and the dictionary without the key, or \<^verbatim>\<open>KeyError\<close>.\<close>

definition dict_pop :: "pydict \<Rightarrow> string \<Rightarrow> error + (pyval \<times> pydict)" where
  "dict_pop d k =
     (case map_of d k of
        None \<Rightarrow> Inl (KeyError k)
      | Some v \<Rightarrow> Inr (v, filter (\<lambda>kv. fst kv \<noteq> k) d))"

section \<open>The constructor\<close>

text \<open>
  Modelled from the spec: \<^verbatim>\<open>utils.no_positional\<close>, the decorator of line 22, is not among
  the sources. The spec: the constructor "rejects positional arguments (except an implicit
  receiver) and raises a usage-type error if any are supplied", by "an explicit runtime
  check in the constructor: if any positional-style argument beyond an implicit receiver is
  present, raise a usage error before assigning fields". The decorated function is called
  with the same arguments otherwise.
\<close>

definition no_positional ::
  "bool \<Rightarrow> ('a list \<Rightarrow> pydict \<Rightarrow> error + 'r) \<Rightarrow> 'a list \<Rightarrow> pydict \<Rightarrow> error + 'r" where
  "no_positional allow_self function args kwargs =
     (let allowed = (if allow_self then 1 else 0) in
      if length args > allowed
      then Inl (TypeError (Positional_given allowed (length args)))
      else function args kwargs)"

text \<open>
  The positional arguments of a call of \<^verbatim>\<open>__init__\<close>: the instance under construction,
  which Python passes first, and the values the caller wrote.
\<close>

datatype pyarg = Receiver | Positional pyval

fun positional_value :: "pyarg \<Rightarrow> pyval option" where
  "positional_value Receiver = None"
| "positional_value (Positional v) = Some v"

text \<open>
  The parameters of \<^verbatim>\<open>__init__\<close> after \<^verbatim>\<open>self\<close>, with their defaults (lines 24 to 31).
\<close>

definition Settings_params :: "(string \<times> pyval) list" where
  "Settings_params =
     [(''profile'', PNone),
      (''username'', PNone), (''password'', PNone),
      (''okta_org'', PNone),
      (''okta_aws_app_url'', PNone),
      (''sts_duration'', PNone),
      (''config_file'', PStr ''~/.pyokta_aws/config''),
      (''verbose'', PBool False),
      (''interactive'', PBool True)]"

text \<open>
  Python's binding of a call to the parameters: positional values fill the parameters in
  order, a keyword that names a parameter filled that way is a \<^verbatim>\<open>TypeError\<close>, a
  parameter left over takes its keyword or its default, and the keywords that name no
  parameter go to \<^verbatim>\<open>**ignored_kwargs\<close>. The result lists the parameters with their values.
\<close>

definition keyword_or_default :: "pydict \<Rightarrow> string \<Rightarrow> pyval \<Rightarrow> pyval" where
  "keyword_or_default kwargs p dflt = (case map_of kwargs p of Some v \<Rightarrow> v | None \<Rightarrow> dflt)"

fun bind_params :: "(string \<times> pyval) list \<Rightarrow> pyval list \<Rightarrow> pydict \<Rightarrow> error + pydict" where
  "bind_params [] [] kwargs = Inr []"
| "bind_params [] (v # vs) kwargs = Inl (TypeError Too_many_positional)"
| "bind_params ((p, dflt) # ps) [] kwargs =
     (case bind_params ps [] kwargs of
        Inl e \<Rightarrow> Inl e
      | Inr b \<Rightarrow> Inr ((p, keyword_or_default kwargs p dflt) # b))"
| "bind_params ((p, dflt) # ps) (v # vs) kwargs =
     (if p \<in> set (keys kwargs) then Inl (TypeError (Multiple_values p))
      else case bind_params ps vs kwargs of
             Inl e \<Rightarrow> Inl e
           | Inr b \<Rightarrow> Inr ((p, v) # b))"

definition local_var :: "pydict \<Rightarrow> string \<Rightarrow> pyval" where
  "local_var b p = (case map_of b p of Some v \<Rightarrow> v | None \<Rightarrow> PNone)"

text \<open>
  \<^verbatim>\<open>Settings.__init__\<close> (lines 23 to 60). The result is the attribute dictionary of the
  instance after the eight assignments of lines 53 to 60, in their order; the parameter
  \<^verbatim>\<open>interactive\<close> is bound and not assigned. A call with no receiver misses \<^verbatim>\<open>self\<close>; a
  receiver that is a plain value has no attribute to assign. The instance under
  construction is known to Python alone, so no caller can pass it among the values; the
  model rejects such a list.
\<close>

fun Settings_init :: "pyarg list \<Rightarrow> pydict \<Rightarrow> error + pydict" where
  "Settings_init [] kwargs = Inl (TypeError (Missing_argument ''self''))"
| "Settings_init (self # pos) kwargs =
     (if ''self'' \<in> set (keys kwargs) then Inl (TypeError (Multiple_values ''self''))
      else case those (map positional_value pos) of
        None \<Rightarrow> Inl (TypeError Too_many_positional)
      | Some vs \<Rightarrow>
         (case bind_params Settings_params vs kwargs of
            Inl e \<Rightarrow> Inl e
          | Inr b \<Rightarrow>
             (case self of
                Positional v \<Rightarrow> Inl (AttributeError ''profile'')
              | Receiver \<Rightarrow>
                 Inr [(''profile'', local_var b ''profile''),
                      (''username'', local_var b ''username''),
                      (''password'', local_var b ''password''),
                      (''okta_org'', local_var b ''okta_org''),
                      (''okta_aws_app_url'', local_var b ''okta_aws_app_url''),
                      (''sts_duration'', local_var b ''sts_duration''),
                      (''config_file'', local_var b ''config_file''),
                      (''verbose'', local_var b ''verbose'')])))"

text \<open>
  The call \<^verbatim>\<open>Settings(*pos, **kwargs)\<close>: Python creates the instance and calls the
  decorated \<^verbatim>\<open>__init__\<close> with it in front of the caller's positional arguments.
\<close>

definition Settings :: "pyval list \<Rightarrow> pydict \<Rightarrow> error + pydict" where
  "Settings pos kwargs =
     no_positional True Settings_init (Receiver # map Positional pos) kwargs"

text \<open>\<^verbatim>\<open>getattr\<close> on an instance: \<^verbatim>\<open>AttributeError\<close> for a name it does not hold.\<close>

definition getattr :: "pydict \<Rightarrow> string \<Rightarrow> error + pyval" where
  "getattr obj name =
     (case map_of obj name of None \<Rightarrow> Inl (AttributeError name) | Some v \<Rightarrow> Inr v)"

section \<open>Option registration\<close>

text \<open>
  One \<^verbatim>\<open>parser.add_argument\<close> call: the option strings, the action with the name of its
  environment variable, and the declared default (\<^verbatim>\<open>None\<close> where the call gives none).
  The help texts and \<^verbatim>\<open>required=False\<close> play no part in the value an option resolves to.
\<close>

datatype action = EnvironmentDefault string | store_true

record argument =
  option_strings :: "string list"
  action :: action
  default_value :: pyval

text \<open>
  The attribute name argparse derives for an option: the first option string with two
  dashes (else the first one), without its leading dashes and with \<^verbatim>\<open>-\<close> turned into
  \<^verbatim>\<open>_\<close>.
\<close>

definition dest :: "argument \<Rightarrow> string" where
  "dest a =
     (let long = filter (\<lambda>s. take 2 s = ''--'') (option_strings a);
          chosen = (case long of s # _ \<Rightarrow> s | [] \<Rightarrow> hd (option_strings a))
      in map (\<lambda>c. if c = CHR ''-'' then CHR ''_'' else c)
           (dropWhile (\<lambda>c. c = CHR ''-'') chosen))"

definition register_argparse_arguments :: "argument list \<Rightarrow> argument list" where
  "register_argparse_arguments parser = parser @
     [\<lparr>option_strings = [''-p'', ''--profile''],
        action = EnvironmentDefault ''OKTA_AWS_PROFILE'', default_value = PNone\<rparr>,
      \<lparr>option_strings = [''-o'', ''--okta-org''],
        action = EnvironmentDefault ''OKTA_ORG'', default_value = PNone\<rparr>,
      \<lparr>option_strings = [''-a'', ''--okta-aws-app-url''],
        action = EnvironmentDefault ''OKTA_AWS_APP_URL'', default_value = PNone\<rparr>,
      \<lparr>option_strings = [''-r'', ''--aws-role-to-assume''],
        action = EnvironmentDefault ''OKTA_AWS_ROLE_TO_ASSUME'', default_value = PNone\<rparr>,
      \<lparr>option_strings = [''-u'', ''--username''],
        action = EnvironmentDefault ''OKTA_USERNAME'', default_value = PNone\<rparr>,
      \<lparr>option_strings = [''-pw'', ''--password''],
        action = EnvironmentDefault ''OKTA_PASSWORD'', default_value = PNone\<rparr>,
      \<lparr>option_strings = [''-s'', ''--sts-duration''],
        action = EnvironmentDefault ''OKTA_STS_DURATION'', default_value = PInt 3600\<rparr>,
      \<lparr>option_strings = [''-c'', ''--config-file''],
        action = EnvironmentDefault ''PYOKTA_AWS_CONFIG'',
        default_value = PStr ''~/.pyokta_aws/config''\<rparr>,
      \<lparr>option_strings = [''--non-interactive''],
        action = store_true, default_value = PBool False\<rparr>,
      \<lparr>option_strings = [''--verbose''],
        action = store_true, default_value = PBool False\<rparr>]"

text \<open>
  What a successful parse has seen on the command line: the value given to each option
  that takes one, and the switches that occur, both by attribute name. The process
  environment is a map from variable names to their values.
\<close>

record command_line =
  given :: "string \<rightharpoonup> string"
  switches :: "string set"

type_synonym environ = "string \<rightharpoonup> string"

text \<open>
  Modelled from the spec: \<^verbatim>\<open>utils.EnvironmentDefault\<close>, the action class of the eight
  value options, is not among the sources. The spec: "Resolution order for every bound
  option, evaluated at parse time: explicit CLI value (if provided) > environment variable
  value (if set) > static default (if declared) > unset."
\<close>

definition EnvironmentDefault_value :: "string option \<Rightarrow> string option \<Rightarrow> pyval \<Rightarrow> pyval" where
  "EnvironmentDefault_value cli_value env_value dflt =
     (case cli_value of
        Some v \<Rightarrow> PStr v
      | None \<Rightarrow> (case env_value of Some e \<Rightarrow> PStr e | None \<Rightarrow> dflt))"

text \<open>
  The value one registered argument leaves in the namespace. A \<^verbatim>\<open>store_true\<close> switch
  stores \<^verbatim>\<open>True\<close> when it occurs and keeps its default otherwise.
\<close>

definition parsed_value :: "command_line \<Rightarrow> environ \<Rightarrow> argument \<Rightarrow> pyval" where
  "parsed_value cli env a =
     (case action a of
        EnvironmentDefault var \<Rightarrow>
          EnvironmentDefault_value (given cli (dest a)) (env var) (default_value a)
      | store_true \<Rightarrow> (if dest a \<in> switches cli then PBool True else default_value a))"

text \<open>
  \<^verbatim>\<open>parser.parse_args()\<close>: the namespace holds one attribute for each registered
  argument, set in the order of registration.
\<close>

definition parse_args :: "argument list \<Rightarrow> command_line \<Rightarrow> environ \<Rightarrow> pydict" where
  "parse_args parser cli env =
     fold (\<lambda>a ns. dict_setitem ns (dest a) (parsed_value cli env a)) parser []"

section \<open>Materialization\<close>

text \<open>
  Objects live in a store, from addresses to attribute dictionaries. \<^verbatim>\<open>vars(args)\<close> is
  the dictionary of the object itself, not a copy: it is read and written at the address of
  \<^verbatim>\<open>args\<close>.
\<close>

type_synonym store = "nat \<Rightarrow> pydict"

definition vars :: "nat \<Rightarrow> nat" where
  "vars obj = obj"

text \<open>\<^verbatim>\<open>'{:.<19s}: {}'.format(x, s)\<close>: the key, dots up to column 19, and the value.\<close>

definition format_line :: "string \<Rightarrow> string \<Rightarrow> string" where
  "format_line x s = x @ replicate (19 - length x) CHR ''.'' @ '': '' @ s"

text \<open>
  \<^verbatim>\<open>x is not y\<close> compares objects. The dictionaries of this model hold their keys
  as texts, the keys of a namespace that argparse has filled: each was set by
  \<^verbatim>\<open>setattr\<close>, which interns the name, and the literals of the module are interned
  too, so that two of them are distinct objects exactly when their texts differ. A
  dictionary whose key is an equal but distinct string object is not a namespace of a
  parse, and what line 163 prints for it is not described here; the facts about the dump
  are stated for the namespace of a parse.
\<close>

definition is_not :: "string \<Rightarrow> string \<Rightarrow> bool" where
  "is_not x y = (x \<noteq> y)"

definition dump_line :: "string \<times> pyval \<Rightarrow> string" where
  "dump_line item =
     (case item of (x, y) \<Rightarrow>
        format_line x (if is_not x ''password'' then str_py y else ''<redacted>''))"

definition header :: string where
  "header = CHR 0x0A # ''Using the following settings...''"

text \<open>
  A run of \<^verbatim>\<open>from_argparse\<close>: what it returns or raises, the texts it printed (one
  for each \<^verbatim>\<open>print\<close>), and the store it leaves.
\<close>

record run =
  result :: "error + pydict"
  printed :: "string list"
  heap :: store

definition from_argparse :: "store \<Rightarrow> nat \<Rightarrow> run" where
  "from_argparse st args =
     (let settings = vars args in
      case dict_pop (st settings) ''non_interactive'' of
        Inl e \<Rightarrow> \<lparr>result = Inl e, printed = [], heap = st\<rparr>
      | Inr (v, d) \<Rightarrow>
         (let st1 = st(settings := d);
              st2 = st1(settings :=
                      dict_setitem (st1 settings) ''interactive'' (PBool (\<not> truthy v)))
          in case dict_getitem (st2 settings) ''verbose'' of
               Inl e \<Rightarrow> \<lparr>result = Inl e, printed = [], heap = st2\<rparr>
             | Inr verbose \<Rightarrow>
                \<lparr>result = Settings [] (st2 settings),
                 printed = (if truthy verbose
                            then header # map dump_line (st2 settings) else []),
                 heap = st2\<rparr>))"

section \<open>Facts about dictionaries\<close>

lemma map_of_dict_setitem: "map_of (dict_setitem d k v) = (map_of d)(k \<mapsto> v)"
  by (induction d) (auto simp: fun_eq_iff)

lemma keys_dom: "set (keys d) = dom (map_of d)"
  by (simp add: keys_def dom_map_of_conv_image_fst)

lemma keys_dict_setitem: "set (keys (dict_setitem d k v)) = insert k (set (keys d))"
  by (simp add: keys_dom map_of_dict_setitem)

lemma map_of_without:
  "map_of (filter (\<lambda>kv. fst kv \<noteq> k) d) k' = (if k' = k then None else map_of d k')"
  by (induction d) auto

lemma keys_without: "set (keys (filter (\<lambda>kv. fst kv \<noteq> k) d)) = set (keys d) - {k}"
  by (auto simp: keys_dom dom_def map_of_without)

lemma map_of_None_keys: "map_of d k = None \<longleftrightarrow> k \<notin> set (keys d)"
  by (simp add: keys_def map_of_eq_None_iff)

section \<open>The parsed namespace\<close>

lemma dests_registered:
  "map dest (register_argparse_arguments []) =
     [''profile'', ''okta_org'', ''okta_aws_app_url'', ''aws_role_to_assume'',
      ''username'', ''password'', ''sts_duration'', ''config_file'',
      ''non_interactive'', ''verbose'']"
  by (simp add: register_argparse_arguments_def dest_def)

lemma parse_args_registered:
  "parse_args (register_argparse_arguments []) cli env =
     [(''profile'',
         EnvironmentDefault_value (given cli ''profile'') (env ''OKTA_AWS_PROFILE'') PNone),
      (''okta_org'',
         EnvironmentDefault_value (given cli ''okta_org'') (env ''OKTA_ORG'') PNone),
      (''okta_aws_app_url'',
         EnvironmentDefault_value (given cli ''okta_aws_app_url'')
           (env ''OKTA_AWS_APP_URL'') PNone),
      (''aws_role_to_assume'',
         EnvironmentDefault_value (given cli ''aws_role_to_assume'')
           (env ''OKTA_AWS_ROLE_TO_ASSUME'') PNone),
      (''username'',
         EnvironmentDefault_value (given cli ''username'') (env ''OKTA_USERNAME'') PNone),
      (''password'',
         EnvironmentDefault_value (given cli ''password'') (env ''OKTA_PASSWORD'') PNone),
      (''sts_duration'',
         EnvironmentDefault_value (given cli ''sts_duration'')
           (env ''OKTA_STS_DURATION'') (PInt 3600)),
      (''config_file'',
         EnvironmentDefault_value (given cli ''config_file'')
           (env ''PYOKTA_AWS_CONFIG'') (PStr ''~/.pyokta_aws/config'')),
      (''non_interactive'', PBool (''non_interactive'' \<in> switches cli)),
      (''verbose'', PBool (''verbose'' \<in> switches cli))]"
  by (simp add: parse_args_def register_argparse_arguments_def dest_def parsed_value_def)

section \<open>What a run of from_argparse leaves\<close>

lemma heap_from_argparse:
  assumes "map_of (st args) ''non_interactive'' = Some v"
  shows "heap (from_argparse st args) =
           st(args := dict_setitem (filter (\<lambda>kv. fst kv \<noteq> ''non_interactive'') (st args))
                        ''interactive'' (PBool (\<not> truthy v)))"
  using assms
  by (simp add: from_argparse_def vars_def dict_pop_def Let_def split: sum.splits)

lemma verbose_after:
  "map_of (dict_setitem (filter (\<lambda>kv. fst kv \<noteq> ''non_interactive'') d) ''interactive'' w)
     ''verbose'' = map_of d ''verbose''"
  by (simp add: map_of_dict_setitem map_of_without)

lemma result_from_argparse:
  assumes "map_of (st args) ''non_interactive'' = Some v"
    and "map_of (st args) ''verbose'' = Some vb"
  shows "result (from_argparse st args) = Settings [] (heap (from_argparse st args) args)"
  using assms
  by (simp add: from_argparse_def vars_def dict_pop_def dict_getitem_def Let_def verbose_after)

lemma printed_from_argparse:
  assumes "map_of (st args) ''non_interactive'' = Some v"
    and "map_of (st args) ''verbose'' = Some vb"
  shows "printed (from_argparse st args) =
           (if truthy vb then header # map dump_line (heap (from_argparse st args) args) else [])"
  using assms
  by (simp add: from_argparse_def vars_def dict_pop_def dict_getitem_def Let_def verbose_after)

section \<open>The interactive switch\<close>

text \<open>
  Claim C4. When the namespace holds \<^verbatim>\<open>non_interactive\<close> (and \<^verbatim>\<open>verbose\<close>, so that
  the constructor is reached), the mapping that \<^verbatim>\<open>from_argparse\<close> hands to the constructor
  holds under \<^verbatim>\<open>interactive\<close> the negation of the truth value of \<^verbatim>\<open>non_interactive\<close>,
  and it has no key \<^verbatim>\<open>non_interactive\<close> any more.
\<close>

theorem interactive_is_negation:
  assumes "map_of (st args) ''non_interactive'' = Some v"
    and "map_of (st args) ''verbose'' = Some vb"
  shows "result (from_argparse st args) = Settings [] (heap (from_argparse st args) args)
       \<and> dict_getitem (heap (from_argparse st args) args) ''interactive''
           = Inr (PBool (\<not> truthy v))
       \<and> ''non_interactive'' \<notin> set (keys (heap (from_argparse st args) args))"
proof -
  have "heap (from_argparse st args) args =
          dict_setitem (filter (\<lambda>kv. fst kv \<noteq> ''non_interactive'') (st args))
            ''interactive'' (PBool (\<not> truthy v))"
    using assms(1) by (simp add: heap_from_argparse [of st args v])
  moreover have "result (from_argparse st args) = Settings [] (heap (from_argparse st args) args)"
    using assms by (rule result_from_argparse [of st args v vb])
  ultimately show ?thesis
    by (simp add: dict_getitem_def map_of_dict_setitem keys_dict_setitem keys_without)
qed

theorem interactive_is_negation_witness:
  "map_of (((\<lambda>_. [])(0 := [(''non_interactive'', PBool True), (''verbose'', PBool False)])) 0)
       ''non_interactive'' = Some (PBool True)
   \<and> dict_getitem
        (heap (from_argparse
           ((\<lambda>_. [])(0 := [(''non_interactive'', PBool True), (''verbose'', PBool False)])) 0) 0)
        ''interactive'' = Inr (PBool False)
   \<and> ''non_interactive'' \<notin> set (keys
        (heap (from_argparse
           ((\<lambda>_. [])(0 := [(''non_interactive'', PBool True), (''verbose'', PBool False)])) 0) 0))"
  using interactive_is_negation
    [of "(\<lambda>_. [])(0 := [(''non_interactive'', PBool True), (''verbose'', PBool False)])" 0
        "PBool True" "PBool False"]
  by simp

section \<open>The namespace is changed in place\<close>

text \<open>
  Claim C9. \<^verbatim>\<open>from_argparse\<close> works on the dictionary of the namespace it is given:
  after the call the object \<^verbatim>\<open>args\<close> has no attribute \<^verbatim>\<open>non_interactive\<close> and has the
  attribute \<^verbatim>\<open>interactive\<close>, so it is not what it was; no other object of the store is
  touched.
\<close>

theorem from_argparse_mutates_args:
  assumes "getattr (st args) ''non_interactive'' = Inr v"
  shows "getattr (heap (from_argparse st args) args) ''non_interactive''
           = Inl (AttributeError ''non_interactive'')
       \<and> getattr (heap (from_argparse st args) args) ''interactive''
           = Inr (PBool (\<not> truthy v))
       \<and> heap (from_argparse st args) args \<noteq> st args
       \<and> (\<forall>obj. obj \<noteq> args \<longrightarrow> heap (from_argparse st args) obj = st obj)"
proof -
  from assms have ni: "map_of (st args) ''non_interactive'' = Some v"
    by (simp add: getattr_def split: option.splits)
  have hp: "heap (from_argparse st args) =
          st(args := dict_setitem (filter (\<lambda>kv. fst kv \<noteq> ''non_interactive'') (st args))
            ''interactive'' (PBool (\<not> truthy v)))"
    using ni by (rule heap_from_argparse [of st args v])
  then have h: "heap (from_argparse st args) args =
          dict_setitem (filter (\<lambda>kv. fst kv \<noteq> ''non_interactive'') (st args))
            ''interactive'' (PBool (\<not> truthy v))"
    by simp
  have "map_of (heap (from_argparse st args) args) ''non_interactive'' = None"
    by (simp add: h map_of_dict_setitem map_of_without)
  with ni have "heap (from_argparse st args) args \<noteq> st args"
    by auto
  moreover have "\<forall>obj. obj \<noteq> args \<longrightarrow> heap (from_argparse st args) obj = st obj"
    by (simp add: hp)
  ultimately show ?thesis
    by (simp add: h getattr_def map_of_dict_setitem map_of_without)
qed

theorem from_argparse_mutates_args_witness:
  "getattr (((\<lambda>_. [])(Suc 0 := [(''verbose'', PBool False), (''non_interactive'', PBool False)]))
       (Suc 0)) ''non_interactive'' = Inr (PBool False)
   \<and> getattr
        (heap (from_argparse
           ((\<lambda>_. [])(Suc 0 := [(''verbose'', PBool False), (''non_interactive'', PBool False)]))
           (Suc 0)) (Suc 0))
        ''non_interactive'' = Inl (AttributeError ''non_interactive'')
   \<and> getattr
        (heap (from_argparse
           ((\<lambda>_. [])(Suc 0 := [(''verbose'', PBool False), (''non_interactive'', PBool False)]))
           (Suc 0)) (Suc 0))
        ''interactive'' = Inr (PBool True)"
  using from_argparse_mutates_args
    [of "(\<lambda>_. [])(Suc 0 := [(''verbose'', PBool False), (''non_interactive'', PBool False)])"
        "Suc 0" "PBool False"]
  by (simp add: getattr_def)

section \<open>Resolution of the options\<close>

lemma map_of_fold_setitem:
  "map_of (fold (\<lambda>a ns. dict_setitem ns (key a) (val a)) xs ns0) k =
     (case map_of (rev (map (\<lambda>a. (key a, val a)) xs)) k of
        Some v \<Rightarrow> Some v
      | None \<Rightarrow> map_of ns0 k)"
  by (induction xs arbitrary: ns0)
     (auto simp: map_of_dict_setitem map_of_append split: option.splits)

lemma getattr_parse_args:
  assumes "distinct (map dest parser)" and "a \<in> set parser"
  shows "getattr (parse_args parser cli env) (dest a) = Inr (parsed_value cli env a)"
proof -
  have "distinct (map fst (rev (map (\<lambda>a. (dest a, parsed_value cli env a)) parser)))"
    using assms(1) by (simp add: rev_map [symmetric] comp_def)
  moreover have "(dest a, parsed_value cli env a)
      \<in> set (rev (map (\<lambda>a. (dest a, parsed_value cli env a)) parser))"
    using assms(2) by auto
  ultimately have "map_of (rev (map (\<lambda>a. (dest a, parsed_value cli env a)) parser)) (dest a)
      = Some (parsed_value cli env a)"
    by (rule map_of_is_SomeI)
  then show ?thesis
    by (simp add: getattr_def parse_args_def map_of_fold_setitem)
qed

lemma distinct_dests: "distinct (map dest (register_argparse_arguments []))"
  by (simp add: dests_registered)

lemma resolved_value:
  assumes "a \<in> set (register_argparse_arguments [])" and "action a = EnvironmentDefault var"
  shows "getattr (parse_args (register_argparse_arguments []) cli env) (dest a) =
           Inr (EnvironmentDefault_value (given cli (dest a)) (env var) (default_value a))"
  using getattr_parse_args [OF distinct_dests assms(1), of cli env] assms(2)
  by (simp add: parsed_value_def)

text \<open>
  Claim C1. For every registered option bound to an environment variable, the value the
  parse leaves in the namespace follows the three tiers: a value given on the command line
  is the result whatever the environment holds; with none given, a set environment variable
  is the result; with neither, the declared default is (\<^verbatim>\<open>None\<close> where none is
  declared).
\<close>

theorem three_tier_precedence:
  assumes "a \<in> set (register_argparse_arguments [])" and "action a = EnvironmentDefault var"
  shows "(\<forall>v. given cli (dest a) = Some v \<longrightarrow>
            getattr (parse_args (register_argparse_arguments []) cli env) (dest a)
              = Inr (PStr v))
       \<and> (\<forall>e. given cli (dest a) = None \<and> env var = Some e \<longrightarrow>
            getattr (parse_args (register_argparse_arguments []) cli env) (dest a)
              = Inr (PStr e))
       \<and> (given cli (dest a) = None \<and> env var = None \<longrightarrow>
            getattr (parse_args (register_argparse_arguments []) cli env) (dest a)
              = Inr (default_value a))"
  using resolved_value [OF assms, of cli env]
  by (simp add: EnvironmentDefault_value_def)

theorem three_tier_precedence_witness:
  "getattr (parse_args (register_argparse_arguments [])
      \<lparr>given = [''sts_duration'' \<mapsto> ''900''], switches = {}\<rparr>
      [''OKTA_STS_DURATION'' \<mapsto> ''1800'']) ''sts_duration'' = Inr (PStr ''900'')
   \<and> getattr (parse_args (register_argparse_arguments [])
      \<lparr>given = Map.empty, switches = {}\<rparr>
      [''OKTA_STS_DURATION'' \<mapsto> ''1800'']) ''sts_duration'' = Inr (PStr ''1800'')
   \<and> getattr (parse_args (register_argparse_arguments [])
      \<lparr>given = Map.empty, switches = {}\<rparr>
      Map.empty) ''sts_duration'' = Inr (PInt 3600)"
proof -
  let ?a = "\<lparr>option_strings = [''-s'', ''--sts-duration''],
             action = EnvironmentDefault ''OKTA_STS_DURATION'', default_value = PInt 3600\<rparr>"
  have mem: "?a \<in> set (register_argparse_arguments [])"
    by (simp add: register_argparse_arguments_def)
  have act: "action ?a = EnvironmentDefault ''OKTA_STS_DURATION''"
    by simp
  have d: "dest ?a = ''sts_duration''"
    by (simp add: dest_def)
  show ?thesis
    using three_tier_precedence [OF mem act,
            of "\<lparr>given = [''sts_duration'' \<mapsto> ''900''], switches = {}\<rparr>"
               "[''OKTA_STS_DURATION'' \<mapsto> ''1800'']"]
          three_tier_precedence [OF mem act,
            of "\<lparr>given = Map.empty, switches = {}\<rparr>" "[''OKTA_STS_DURATION'' \<mapsto> ''1800'']"]
          three_tier_precedence [OF mem act,
            of "\<lparr>given = Map.empty, switches = {}\<rparr>" "Map.empty"]
    unfolding d by simp
qed

text \<open>
  Claim C5. With no value on the command line and the bound environment variable unset,
  \<^verbatim>\<open>sts_duration\<close> resolves to \<^verbatim>\<open>3600\<close> and \<^verbatim>\<open>config_file\<close> to
  \<^verbatim>\<open>~/.pyokta_aws/config\<close>.
\<close>

theorem declared_defaults:
  "(given cli ''sts_duration'' = None \<and> env ''OKTA_STS_DURATION'' = None \<longrightarrow>
      getattr (parse_args (register_argparse_arguments []) cli env) ''sts_duration''
        = Inr (PInt 3600))
   \<and> (given cli ''config_file'' = None \<and> env ''PYOKTA_AWS_CONFIG'' = None \<longrightarrow>
      getattr (parse_args (register_argparse_arguments []) cli env) ''config_file''
        = Inr (PStr ''~/.pyokta_aws/config''))"
  by (simp add: parse_args_registered getattr_def EnvironmentDefault_value_def)

theorem declared_defaults_witness:
  "getattr (parse_args (register_argparse_arguments [])
      \<lparr>given = [''profile'' \<mapsto> ''acme''], switches = {''verbose''}\<rparr> Map.empty)
      ''sts_duration'' = Inr (PInt 3600)
   \<and> getattr (parse_args (register_argparse_arguments [])
      \<lparr>given = [''profile'' \<mapsto> ''acme''], switches = {''verbose''}\<rparr> Map.empty)
      ''config_file'' = Inr (PStr ''~/.pyokta_aws/config'')"
  using declared_defaults
    [of "\<lparr>given = [''profile'' \<mapsto> ''acme''], switches = {''verbose''}\<rparr>" Map.empty]
  by simp

section \<open>Construction\<close>

lemma bind_params_keywords:
  "bind_params ps [] kwargs = Inr (map (\<lambda>pd. (fst pd, keyword_or_default kwargs (fst pd) (snd pd))) ps)"
  by (induction ps) auto

lemma Settings_keywords:
  assumes "''self'' \<notin> set (keys kwargs)"
  shows "Settings [] kwargs =
     Inr [(''profile'', keyword_or_default kwargs ''profile'' PNone),
          (''username'', keyword_or_default kwargs ''username'' PNone),
          (''password'', keyword_or_default kwargs ''password'' PNone),
          (''okta_org'', keyword_or_default kwargs ''okta_org'' PNone),
          (''okta_aws_app_url'', keyword_or_default kwargs ''okta_aws_app_url'' PNone),
          (''sts_duration'', keyword_or_default kwargs ''sts_duration'' PNone),
          (''config_file'',
             keyword_or_default kwargs ''config_file'' (PStr ''~/.pyokta_aws/config'')),
          (''verbose'', keyword_or_default kwargs ''verbose'' (PBool False))]"
  using assms
  by (simp add: Settings_def no_positional_def bind_params_keywords Settings_params_def
        local_var_def)

lemma Settings_self:
  assumes "''self'' \<in> set (keys kwargs)"
  shows "Settings [] kwargs = Inl (TypeError (Multiple_values ''self''))"
  using assms by (simp add: Settings_def no_positional_def)

lemma Settings_positional:
  "Settings (v # vs) kwargs = Inl (TypeError (Positional_given 1 (Suc (Suc (length vs)))))"
  by (simp add: Settings_def no_positional_def)

text \<open>
  Claim C3. A construction with at least one positional argument fails with the
  \<^verbatim>\<open>TypeError\<close> of the decorator; the decorator raises it whatever the decorated function
  is, so before \<^verbatim>\<open>__init__\<close> runs and assigns a field. A construction with keyword
  arguments only never fails with that error.
\<close>

theorem positional_construction_fails:
  assumes "pos \<noteq> []"
  shows "Settings pos kwargs = Inl (TypeError (Positional_given 1 (Suc (length pos))))
       \<and> no_positional True function (Receiver # map Positional pos) kwargs
           = Inl (TypeError (Positional_given 1 (Suc (length pos))))
       \<and> (\<forall>allowed received.
            Settings [] kwargs \<noteq> Inl (TypeError (Positional_given allowed received)))"
proof -
  from assms obtain v vs where pos: "pos = v # vs"
    by (cases pos) auto
  have "Settings [] kwargs \<noteq> Inl (TypeError (Positional_given allowed received))"
    for allowed received
    by (cases "''self'' \<in> set (keys kwargs)") (simp_all add: Settings_self Settings_keywords)
  then show ?thesis
    by (simp add: pos Settings_positional no_positional_def)
qed

theorem positional_construction_fails_witness:
  "[PStr ''myprofile''] \<noteq> []
   \<and> Settings [PStr ''myprofile''] [(''username'', PStr ''fakeusername'')]
       = Inl (TypeError (Positional_given 1 2))
   \<and> Settings [] [(''profile'', PStr ''myprofile''), (''username'', PStr ''fakeusername'')]
       = Inr [(''profile'', PStr ''myprofile''), (''username'', PStr ''fakeusername''),
              (''password'', PNone), (''okta_org'', PNone), (''okta_aws_app_url'', PNone),
              (''sts_duration'', PNone), (''config_file'', PStr ''~/.pyokta_aws/config''),
              (''verbose'', PBool False)]"
  using positional_construction_fails
    [of "[PStr ''myprofile'']" "[(''username'', PStr ''fakeusername'')]" Settings_init]
  by (simp add: Settings_keywords keys_def keyword_or_default_def)

lemma keyword_or_default_known:
  assumes "p \<in> set names"
  shows "keyword_or_default (filter (\<lambda>kv. fst kv \<in> set names) kwargs) p dflt
           = keyword_or_default kwargs p dflt"
proof -
  have "map_of (filter (\<lambda>kv. fst kv \<in> set names) kwargs) p = map_of kwargs p"
    using assms by (induction kwargs) auto
  then show ?thesis
    by (simp add: keyword_or_default_def)
qed

text \<open>
  Claim C8 says that every set of keyword arguments with unknown keys is accepted. The
  keyword \<^verbatim>\<open>self\<close> is not: it names the receiver, which the call has bound already.
\<close>

theorem self_keyword_counterexample:
  "''self'' \<notin> set (map fst Settings_params)
   \<and> Settings [] [(''self'', PStr ''x'')] = Inl (TypeError (Multiple_values ''self''))"
  by (simp add: Settings_params_def Settings_def no_positional_def keys_def)

text \<open>
  Claim C8, amended. For every set of keyword arguments without the key \<^verbatim>\<open>self\<close>,
  construction succeeds and the keys that name no parameter are discarded: the instance is
  the one built from the known keys alone, and it holds the eight assigned attributes.
\<close>

theorem unknown_keywords_discarded:
  assumes "''self'' \<notin> set (keys kwargs)"
  shows "\<exists>inst. Settings [] kwargs = Inr inst
           \<and> Settings [] (filter (\<lambda>kv. fst kv \<in> set (map fst Settings_params)) kwargs)
               = Inr inst
           \<and> keys inst = [''profile'', ''username'', ''password'', ''okta_org'',
                           ''okta_aws_app_url'', ''sts_duration'', ''config_file'',
                           ''verbose'']"
proof -
  let ?known = "filter (\<lambda>kv. fst kv \<in> set (map fst Settings_params)) kwargs"
  have "set (keys ?known) \<subseteq> set (keys kwargs)"
    by (auto simp: keys_def)
  with assms have "''self'' \<notin> set (keys ?known)"
    by blast
  moreover have "keyword_or_default ?known p dflt = keyword_or_default kwargs p dflt"
    if "p \<in> set [''profile'', ''username'', ''password'', ''okta_org'', ''okta_aws_app_url'',
                   ''sts_duration'', ''config_file'', ''verbose'']" for p dflt
  proof -
    from that have "p \<in> set (map fst Settings_params)"
      by (auto simp: Settings_params_def)
    then show ?thesis
      by (rule keyword_or_default_known)
  qed
  ultimately have "Settings [] ?known = Settings [] kwargs"
    using assms by (simp add: Settings_keywords)
  then show ?thesis
    using assms by (simp add: Settings_keywords keys_def)
qed

theorem unknown_keywords_discarded_witness:
  "''self'' \<notin> set (keys [(''profile'', PStr ''acme''), (''aws_role_to_assume'', PStr ''r''),
                           (''bogus'', PInt 7)])
   \<and> Settings [] [(''profile'', PStr ''acme''), (''aws_role_to_assume'', PStr ''r''),
                   (''bogus'', PInt 7)]
       = Inr [(''profile'', PStr ''acme''), (''username'', PNone),
              (''password'', PNone), (''okta_org'', PNone), (''okta_aws_app_url'', PNone),
              (''sts_duration'', PNone), (''config_file'', PStr ''~/.pyokta_aws/config''),
              (''verbose'', PBool False)]
   \<and> Settings [] [(''profile'', PStr ''acme'')]
       = Inr [(''profile'', PStr ''acme''), (''username'', PNone),
              (''password'', PNone), (''okta_org'', PNone), (''okta_aws_app_url'', PNone),
              (''sts_duration'', PNone), (''config_file'', PStr ''~/.pyokta_aws/config''),
              (''verbose'', PBool False)]"
  using unknown_keywords_discarded
    [of "[(''profile'', PStr ''acme''), (''aws_role_to_assume'', PStr ''r''),
          (''bogus'', PInt 7)]"]
  by (simp add: Settings_keywords keys_def keyword_or_default_def)

section \<open>Materialization of a parsed namespace\<close>

lemma from_argparse_returns:
  assumes "map_of (st args) ''non_interactive'' = Some v"
    and "map_of (st args) ''verbose'' = Some vb"
    and "''self'' \<notin> set (keys (st args))"
  shows "\<exists>inst. result (from_argparse st args) = Inr inst"
proof -
  let ?kwargs = "dict_setitem (filter (\<lambda>kv. fst kv \<noteq> ''non_interactive'') (st args))
                   ''interactive'' (PBool (\<not> truthy v))"
  have "heap (from_argparse st args) args = ?kwargs"
    using assms(1) by (simp add: heap_from_argparse [of st args v])
  then have "result (from_argparse st args) = Settings [] ?kwargs"
    using result_from_argparse [of st args v vb] assms(1,2) by simp
  moreover have "''self'' \<notin> set (keys ?kwargs)"
    using assms(3) by (simp add: keys_dict_setitem keys_without)
  ultimately show ?thesis
    by (simp add: Settings_keywords)
qed

lemma parsed_keys:
  "keys (parse_args (register_argparse_arguments []) cli env) =
     [''profile'', ''okta_org'', ''okta_aws_app_url'', ''aws_role_to_assume'',
      ''username'', ''password'', ''sts_duration'', ''config_file'',
      ''non_interactive'', ''verbose'']"
  by (simp add: parse_args_registered keys_def)

lemma parsed_non_interactive:
  "map_of (parse_args (register_argparse_arguments []) cli env) ''non_interactive''
     = Some (PBool (''non_interactive'' \<in> switches cli))"
  by (simp add: parse_args_registered)

lemma parsed_verbose:
  "map_of (parse_args (register_argparse_arguments []) cli env) ''verbose''
     = Some (PBool (''verbose'' \<in> switches cli))"
  by (simp add: parse_args_registered)

text \<open>
  Claim C7. For every command line and every environment, \<^verbatim>\<open>from_argparse\<close> on the
  namespace of the parse raises nothing and returns a \<^verbatim>\<open>Settings\<close> instance, whether
  or not \<^verbatim>\<open>username\<close>, \<^verbatim>\<open>password\<close> or \<^verbatim>\<open>okta_org\<close> resolved to a value.
\<close>

theorem from_argparse_never_raises:
  "\<exists>inst. result (from_argparse
              (st(args := parse_args (register_argparse_arguments []) cli env)) args)
            = Inr inst"
proof (rule from_argparse_returns)
  show "map_of ((st(args := parse_args (register_argparse_arguments []) cli env)) args)
          ''non_interactive'' = Some (PBool (''non_interactive'' \<in> switches cli))"
    by (simp add: parsed_non_interactive)
  show "map_of ((st(args := parse_args (register_argparse_arguments []) cli env)) args)
          ''verbose'' = Some (PBool (''verbose'' \<in> switches cli))"
    by (simp add: parsed_verbose)
  show "''self'' \<notin> set (keys ((st(args := parse_args (register_argparse_arguments []) cli env))
          args))"
    by (simp add: parsed_keys)
qed

lemma kwargs_parsed:
  "heap (from_argparse (st(args := parse_args (register_argparse_arguments []) cli env)) args)
     args =
     [(''profile'',
         EnvironmentDefault_value (given cli ''profile'') (env ''OKTA_AWS_PROFILE'') PNone),
      (''okta_org'',
         EnvironmentDefault_value (given cli ''okta_org'') (env ''OKTA_ORG'') PNone),
      (''okta_aws_app_url'',
         EnvironmentDefault_value (given cli ''okta_aws_app_url'')
           (env ''OKTA_AWS_APP_URL'') PNone),
      (''aws_role_to_assume'',
         EnvironmentDefault_value (given cli ''aws_role_to_assume'')
           (env ''OKTA_AWS_ROLE_TO_ASSUME'') PNone),
      (''username'',
         EnvironmentDefault_value (given cli ''username'') (env ''OKTA_USERNAME'') PNone),
      (''password'',
         EnvironmentDefault_value (given cli ''password'') (env ''OKTA_PASSWORD'') PNone),
      (''sts_duration'',
         EnvironmentDefault_value (given cli ''sts_duration'')
           (env ''OKTA_STS_DURATION'') (PInt 3600)),
      (''config_file'',
         EnvironmentDefault_value (given cli ''config_file'')
           (env ''PYOKTA_AWS_CONFIG'') (PStr ''~/.pyokta_aws/config'')),
      (''verbose'', PBool (''verbose'' \<in> switches cli)),
      (''interactive'', PBool (''non_interactive'' \<notin> switches cli))]"
proof -
  have "map_of ((st(args := parse_args (register_argparse_arguments []) cli env)) args)
          ''non_interactive'' = Some (PBool (''non_interactive'' \<in> switches cli))"
    by (simp add: parsed_non_interactive)
  then have "heap (from_argparse
                (st(args := parse_args (register_argparse_arguments []) cli env)) args) args =
      dict_setitem (filter (\<lambda>kv. fst kv \<noteq> ''non_interactive'')
          (parse_args (register_argparse_arguments []) cli env))
        ''interactive'' (PBool (\<not> truthy (PBool (''non_interactive'' \<in> switches cli))))"
    by (simp add: heap_from_argparse
          [of _ args "PBool (''non_interactive'' \<in> switches cli)"])
  then show ?thesis
    by (simp add: parse_args_registered)
qed

lemma result_parsed:
  "result (from_argparse (st(args := parse_args (register_argparse_arguments []) cli env)) args)
     = Inr
     [(''profile'',
         EnvironmentDefault_value (given cli ''profile'') (env ''OKTA_AWS_PROFILE'') PNone),
      (''username'',
         EnvironmentDefault_value (given cli ''username'') (env ''OKTA_USERNAME'') PNone),
      (''password'',
         EnvironmentDefault_value (given cli ''password'') (env ''OKTA_PASSWORD'') PNone),
      (''okta_org'',
         EnvironmentDefault_value (given cli ''okta_org'') (env ''OKTA_ORG'') PNone),
      (''okta_aws_app_url'',
         EnvironmentDefault_value (given cli ''okta_aws_app_url'')
           (env ''OKTA_AWS_APP_URL'') PNone),
      (''sts_duration'',
         EnvironmentDefault_value (given cli ''sts_duration'')
           (env ''OKTA_STS_DURATION'') (PInt 3600)),
      (''config_file'',
         EnvironmentDefault_value (given cli ''config_file'')
           (env ''PYOKTA_AWS_CONFIG'') (PStr ''~/.pyokta_aws/config'')),
      (''verbose'', PBool (''verbose'' \<in> switches cli))]"
proof -
  have "result (from_argparse
           (st(args := parse_args (register_argparse_arguments []) cli env)) args)
      = Settings [] (heap (from_argparse
           (st(args := parse_args (register_argparse_arguments []) cli env)) args) args)"
    by (rule result_from_argparse
          [of _ args "PBool (''non_interactive'' \<in> switches cli)"
              "PBool (''verbose'' \<in> switches cli)"])
       (simp_all add: parsed_non_interactive parsed_verbose)
  then show ?thesis
    unfolding kwargs_parsed
    by (simp add: Settings_keywords keys_def keyword_or_default_def)
qed

lemma printed_parsed:
  "printed (from_argparse (st(args := parse_args (register_argparse_arguments []) cli env))
      args) =
     (if ''verbose'' \<in> switches cli
      then header # map dump_line (heap (from_argparse
             (st(args := parse_args (register_argparse_arguments []) cli env)) args) args)
      else [])"
  using printed_from_argparse
          [of "st(args := parse_args (register_argparse_arguments []) cli env)" args
              "PBool (''non_interactive'' \<in> switches cli)"
              "PBool (''verbose'' \<in> switches cli)"]
  by (simp add: parsed_non_interactive parsed_verbose)

text \<open>
  Claim C10. The parse resolves \<^verbatim>\<open>aws_role_to_assume\<close> like every bound option, and
  the instance built from the namespace does not depend on it: the instance is the same
  for any other role on the command line and in the environment, and it has no attribute
  of that name.
\<close>

theorem role_is_dropped:
  "getattr (parse_args (register_argparse_arguments []) cli env) ''aws_role_to_assume''
     = Inr (EnvironmentDefault_value (given cli ''aws_role_to_assume'')
              (env ''OKTA_AWS_ROLE_TO_ASSUME'') PNone)
   \<and> result (from_argparse
        (st(args := parse_args (register_argparse_arguments [])
            (cli\<lparr>given := (given cli)(''aws_role_to_assume'' := role)\<rparr>)
            (env(''OKTA_AWS_ROLE_TO_ASSUME'' := var)))) args)
     = result (from_argparse
        (st(args := parse_args (register_argparse_arguments []) cli env)) args)
   \<and> (\<exists>inst. result (from_argparse
        (st(args := parse_args (register_argparse_arguments []) cli env)) args) = Inr inst
        \<and> getattr inst ''aws_role_to_assume'' = Inl (AttributeError ''aws_role_to_assume''))"
proof -
  have "getattr (parse_args (register_argparse_arguments []) cli env) ''aws_role_to_assume''
     = Inr (EnvironmentDefault_value (given cli ''aws_role_to_assume'')
              (env ''OKTA_AWS_ROLE_TO_ASSUME'') PNone)"
    by (simp add: parse_args_registered getattr_def)
  moreover have "result (from_argparse
        (st(args := parse_args (register_argparse_arguments [])
            (cli\<lparr>given := (given cli)(''aws_role_to_assume'' := role)\<rparr>)
            (env(''OKTA_AWS_ROLE_TO_ASSUME'' := var)))) args)
     = result (from_argparse
        (st(args := parse_args (register_argparse_arguments []) cli env)) args)"
    by (simp add: result_parsed)
  moreover have "\<exists>inst. result (from_argparse
        (st(args := parse_args (register_argparse_arguments []) cli env)) args) = Inr inst
        \<and> getattr inst ''aws_role_to_assume'' = Inl (AttributeError ''aws_role_to_assume'')"
    by (simp add: result_parsed getattr_def)
  ultimately show ?thesis
    by blast
qed

lemma str_3600: "str_py (PInt 3600) = ''3600''"
  by (simp add: str_int_def str_nat.simps)

text \<open>
  Claim C6. The run for \<^verbatim>\<open>--profile acme --verbose\<close> under an empty environment:
  the instance holds \<^verbatim>\<open>profile\<close>, \<^verbatim>\<open>config_file\<close> and \<^verbatim>\<open>sts_duration\<close> as the
  example says and the dump shows the password line redacted, but the instance has no
  attribute \<^verbatim>\<open>interactive\<close>: line 31 takes the parameter and no line assigns it.
\<close>

theorem acme_instance_lacks_interactive:
  "result (from_argparse
      ((\<lambda>_. [])(0 := parse_args (register_argparse_arguments [])
          \<lparr>given = [''profile'' \<mapsto> ''acme''], switches = {''verbose''}\<rparr> Map.empty)) 0)
     = Inr [(''profile'', PStr ''acme''), (''username'', PNone), (''password'', PNone),
            (''okta_org'', PNone), (''okta_aws_app_url'', PNone),
            (''sts_duration'', PInt 3600),
            (''config_file'', PStr ''~/.pyokta_aws/config''), (''verbose'', PBool True)]
   \<and> getattr
        [(''profile'', PStr ''acme''), (''username'', PNone), (''password'', PNone),
         (''okta_org'', PNone), (''okta_aws_app_url'', PNone),
         (''sts_duration'', PInt 3600),
         (''config_file'', PStr ''~/.pyokta_aws/config''), (''verbose'', PBool True)]
        ''interactive'' = Inl (AttributeError ''interactive'')
   \<and> printed (from_argparse
      ((\<lambda>_. [])(0 := parse_args (register_argparse_arguments [])
          \<lparr>given = [''profile'' \<mapsto> ''acme''], switches = {''verbose''}\<rparr> Map.empty)) 0)
     = [CHR 0x0A # ''Using the following settings...'',
        ''profile............: acme'',
        ''okta_org...........: None'',
        ''okta_aws_app_url...: None'',
        ''aws_role_to_assume.: None'',
        ''username...........: None'',
        ''password...........: <redacted>'',
        ''sts_duration.......: 3600'',
        ''config_file........: ~/.pyokta_aws/config'',
        ''verbose............: True'',
        ''interactive........: True'']"
proof -
  let ?cli = "\<lparr>given = [''profile'' \<mapsto> ''acme''], switches = {''verbose''}\<rparr>"
  let ?run = "from_argparse
      ((\<lambda>_. [])(0 := parse_args (register_argparse_arguments []) ?cli Map.empty)) 0"
  have r: "result ?run
     = Inr [(''profile'', PStr ''acme''), (''username'', PNone), (''password'', PNone),
            (''okta_org'', PNone), (''okta_aws_app_url'', PNone),
            (''sts_duration'', PInt 3600),
            (''config_file'', PStr ''~/.pyokta_aws/config''), (''verbose'', PBool True)]"
    by (simp add: result_parsed EnvironmentDefault_value_def)
  have g: "getattr
        [(''profile'', PStr ''acme''), (''username'', PNone), (''password'', PNone),
         (''okta_org'', PNone), (''okta_aws_app_url'', PNone),
         (''sts_duration'', PInt 3600),
         (''config_file'', PStr ''~/.pyokta_aws/config''), (''verbose'', PBool True)]
        ''interactive'' = Inl (AttributeError ''interactive'')"
    by (simp add: getattr_def)
  have p: "printed ?run
     = [CHR 0x0A # ''Using the following settings...'',
        ''profile............: acme'',
        ''okta_org...........: None'',
        ''okta_aws_app_url...: None'',
        ''aws_role_to_assume.: None'',
        ''username...........: None'',
        ''password...........: <redacted>'',
        ''sts_duration.......: 3600'',
        ''config_file........: ~/.pyokta_aws/config'',
        ''verbose............: True'',
        ''interactive........: True'']"
    unfolding printed_parsed kwargs_parsed
    by (simp add: EnvironmentDefault_value_def dump_line_def is_not_def format_line_def header_def
          str_3600 eval_nat_numeral del: str_py.simps(3))
  from r g p show ?thesis
    by (intro conjI)
qed

section \<open>The verbose dump\<close>

lemma dump_parsed:
  "map dump_line
     (heap (from_argparse (st(args := parse_args (register_argparse_arguments []) cli env))
        args) args) =
     [format_line ''profile'' (str_py
        (EnvironmentDefault_value (given cli ''profile'') (env ''OKTA_AWS_PROFILE'') PNone)),
      format_line ''okta_org'' (str_py
        (EnvironmentDefault_value (given cli ''okta_org'') (env ''OKTA_ORG'') PNone)),
      format_line ''okta_aws_app_url'' (str_py
        (EnvironmentDefault_value (given cli ''okta_aws_app_url'')
           (env ''OKTA_AWS_APP_URL'') PNone)),
      format_line ''aws_role_to_assume'' (str_py
        (EnvironmentDefault_value (given cli ''aws_role_to_assume'')
           (env ''OKTA_AWS_ROLE_TO_ASSUME'') PNone)),
      format_line ''username'' (str_py
        (EnvironmentDefault_value (given cli ''username'') (env ''OKTA_USERNAME'') PNone)),
      ''password...........: <redacted>'',
      format_line ''sts_duration'' (str_py
        (EnvironmentDefault_value (given cli ''sts_duration'')
           (env ''OKTA_STS_DURATION'') (PInt 3600))),
      format_line ''config_file'' (str_py
        (EnvironmentDefault_value (given cli ''config_file'')
           (env ''PYOKTA_AWS_CONFIG'') (PStr ''~/.pyokta_aws/config''))),
      format_line ''verbose'' (str_py (PBool (''verbose'' \<in> switches cli))),
      format_line ''interactive'' (str_py (PBool (''non_interactive'' \<notin> switches cli)))]"
proof -
  have "format_line ''password'' ''<redacted>'' = ''password...........: <redacted>''"
    by (simp add: format_line_def eval_nat_numeral)
  then show ?thesis
    unfolding kwargs_parsed
    by (simp add: dump_line_def is_not_def del: str_py.simps)
qed

text \<open>
  Claim C2. For every command line and environment, the run on the namespace of the parse
  prints the same texts whatever the password is, on the command line and in the
  environment: two runs that differ only in the password print the same. When
  \<^verbatim>\<open>verbose\<close> is true, the dump's line for the key \<^verbatim>\<open>password\<close>, the sixth after the
  heading, is the key with the marker \<^verbatim>\<open><redacted>\<close>.
\<close>

theorem password_is_redacted:
  "printed (from_argparse
      (st(args := parse_args (register_argparse_arguments [])
          (cli\<lparr>given := (given cli)(''password'' := p)\<rparr>)
          (env(''OKTA_PASSWORD'' := e)))) args)
     = printed (from_argparse
         (st(args := parse_args (register_argparse_arguments []) cli env)) args)
   \<and> (''verbose'' \<in> switches cli \<longrightarrow>
        printed (from_argparse
          (st(args := parse_args (register_argparse_arguments []) cli env)) args) ! 6
          = ''password...........: <redacted>''
        \<and> ''password...........: <redacted>'' \<in> set (printed (from_argparse
             (st(args := parse_args (register_argparse_arguments []) cli env)) args)))"
  by (simp add: printed_parsed dump_parsed del: str_py.simps)

theorem password_is_redacted_witness:
  "printed (from_argparse
      ((\<lambda>_. [])(0 := parse_args (register_argparse_arguments [])
          \<lparr>given = [''password'' \<mapsto> ''hunter2''], switches = {''verbose''}\<rparr>
          Map.empty)) 0)
     = printed (from_argparse
      ((\<lambda>_. [])(0 := parse_args (register_argparse_arguments [])
          \<lparr>given = [''password'' \<mapsto> ''correct horse''], switches = {''verbose''}\<rparr>
          Map.empty)) 0)
   \<and> printed (from_argparse
      ((\<lambda>_. [])(0 := parse_args (register_argparse_arguments [])
          \<lparr>given = [''password'' \<mapsto> ''correct horse''], switches = {''verbose''}\<rparr>
          Map.empty)) 0) ! 6
     = ''password...........: <redacted>''"
  using password_is_redacted
    [of "\<lambda>_. []" 0
        "\<lparr>given = [''password'' \<mapsto> ''correct horse''], switches = {''verbose''}\<rparr>"
        "Some ''hunter2''" Map.empty None]
  by simp

section \<open>Runs on concrete command lines\<close>

lemma unset_fields_instance:
  "result (from_argparse
      ((\<lambda>_. [])(0 := parse_args (register_argparse_arguments [])
          \<lparr>given = Map.empty, switches = {}\<rparr> Map.empty)) 0)
     = Inr [(''profile'', PNone), (''username'', PNone), (''password'', PNone),
            (''okta_org'', PNone), (''okta_aws_app_url'', PNone),
            (''sts_duration'', PInt 3600),
            (''config_file'', PStr ''~/.pyokta_aws/config''), (''verbose'', PBool False)]"
  by (simp add: result_parsed EnvironmentDefault_value_def)

theorem from_argparse_never_raises_witness:
  "result (from_argparse
      ((\<lambda>_. [])(0 := parse_args (register_argparse_arguments [])
          \<lparr>given = Map.empty, switches = {}\<rparr> Map.empty)) 0)
     = Inr [(''profile'', PNone), (''username'', PNone), (''password'', PNone),
            (''okta_org'', PNone), (''okta_aws_app_url'', PNone),
            (''sts_duration'', PInt 3600),
            (''config_file'', PStr ''~/.pyokta_aws/config''), (''verbose'', PBool False)]"
  using from_argparse_never_raises
    [of "\<lambda>_. []" 0 "\<lparr>given = Map.empty, switches = {}\<rparr>" Map.empty]
  by (simp add: unset_fields_instance)

theorem role_is_dropped_witness:
  "getattr (parse_args (register_argparse_arguments [])
      \<lparr>given = [''aws_role_to_assume'' \<mapsto> ''123456789012/AWSAdmin/jdoe''], switches = {}\<rparr>
      Map.empty) ''aws_role_to_assume'' = Inr (PStr ''123456789012/AWSAdmin/jdoe'')
   \<and> result (from_argparse
        ((\<lambda>_. [])(0 := parse_args (register_argparse_arguments [])
            \<lparr>given = [''aws_role_to_assume'' \<mapsto> ''123456789012/AWSAdmin/jdoe''],
             switches = {}\<rparr> Map.empty)) 0)
     = result (from_argparse
        ((\<lambda>_. [])(0 := parse_args (register_argparse_arguments [])
            \<lparr>given = Map.empty, switches = {}\<rparr> Map.empty)) 0)"
  using role_is_dropped
    [of "\<lparr>given = [''aws_role_to_assume'' \<mapsto> ''123456789012/AWSAdmin/jdoe''],
          switches = {}\<rparr>" Map.empty "\<lambda>_. []" 0 None None]
  by (simp add: EnvironmentDefault_value_def)

end
